theory Spec2Isabelle
  imports Complex_Main "HOL-Library.AList"
begin

section \<open>Values, dictionaries and exceptions\<close>

text \<open>
  The service answers with Python dictionaries from string keys to strings, booleans,
  integers and floats. A dictionary is an association list in insertion order;
  \<open>d[k] = v\<close> is \<^const>\<open>AList.update\<close> (overwrite in place, else append) and a lookup
  is \<^const>\<open>map_of\<close>.

  A Python float is the \<^typ>\<open>real\<close> number it stands for; infinities and NaN are not
  values of the model. Comparisons of floats are exact. An arithmetic operation on
  floats gives the binary64 number nearest to its exact result, see \<open>float_of\<close> below.
\<close>

datatype pyval = PyStr string | PyBool bool | PyInt int | PyFloat real

type_synonym pydict = "(string \<times> pyval) list"

text \<open>
  The exception classes that occur: \<open>fastapi.HTTPException(status_code, detail)\<close> and
  \<open>ValueError(message)\<close>, which the code raises itself, and \<open>RuntimeError\<close> and
  \<open>cv2.error\<close>, which the thread and video libraries raise. All are subclasses of
  \<open>Exception\<close>: a handler \<open>except Exception\<close> catches each of them, a handler
  \<open>except ValueError\<close> only the second.
\<close>

datatype exn =
    is_HTTPException: HTTPException (status_code: int) (detail: string)
  | ValueError string
  | RuntimeError string
  | cv2_error string

text \<open>
  What one pass through the body of the playback loop meets: \<open>cap.read()\<close> gives no
  frame; or it gives a frame, which is shown, and \<open>cv2.waitKey\<close> then reports whether
  \<open>q\<close> or ESC was pressed; or a library call of the body raises.
\<close>

datatype frame_event = NoFrame | Frame bool | Raised

text \<open>
  What the code takes from outside the repository, at the moment of one call:
  \<^item> the file system (\<open>os.path.exists\<close>);
  \<^item> the video library: \<open>cv2.VideoCapture\<close> (\<open>None\<close> when \<open>isOpened()\<close> is false,
    otherwise the values of \<open>CAP_PROP_FRAME_COUNT\<close> and \<open>CAP_PROP_FPS\<close>), and whether
    \<open>cv2.destroyAllWindows()\<close> and \<open>cap.set(...)\<close> return (\<open>None\<close>) or raise \<open>cv2.error\<close>
    with a message;
  \<^item> whether \<open>Thread.start()\<close> returns or raises \<open>RuntimeError\<close> with a message;
  \<^item> the text that \<open>str\<close> gives for an \<open>HTTPException\<close> and for a float;
  \<^item> the rounding of a real number to binary64;
  \<^item> what the playback thread meets in the loop body it is in when it is joined.
\<close>

record env =
  path_exists :: "string \<Rightarrow> bool"
  VideoCapture :: "string \<Rightarrow> (real \<times> real) option"
  destroyAllWindows :: "string option"
  cap_set :: "string option"
  Thread_start :: "string option"
  str_HTTPException :: "int \<Rightarrow> string \<Rightarrow> string"
  str_float :: "real \<Rightarrow> string"
  nearest_double :: "real \<Rightarrow> real"
  joined_frame :: frame_event

text \<open>\<open>str(e)\<close>: for an exception built from one message, the message itself.\<close>

fun str_exn :: "env \<Rightarrow> exn \<Rightarrow> string" where
  "str_exn env (HTTPException c d) = str_HTTPException env c d"
| "str_exn env (ValueError m) = m"
| "str_exn env (RuntimeError m) = m"
| "str_exn env (cv2_error m) = m"

subsection \<open>Python's float and format primitives\<close>

text \<open>
  The float that an operation returns for the exact result \<open>x\<close>. Every integer of
  magnitude at most \<open>2^53\<close> is a binary64 number, so there the result is \<open>x\<close> itself;
  elsewhere it is the rounding of the platform.
\<close>

definition float_of :: "env \<Rightarrow> real \<Rightarrow> real" where
  "float_of env x = (if x = of_int \<lfloor>x\<rfloor> \<and> \<bar>x\<bar> \<le> 2 ^ 53 then x else nearest_double env x)"

text \<open>\<open>a / b\<close>, \<open>a * b\<close>, \<open>a // b\<close> (floored quotient) and \<open>a % b\<close> (remainder with the
  divisor's sign) on floats, for \<open>b\<close> other than zero.\<close>

definition py_truediv :: "env \<Rightarrow> real \<Rightarrow> real \<Rightarrow> real" where
  "py_truediv env a b = float_of env (a / b)"

definition py_mul :: "env \<Rightarrow> real \<Rightarrow> real \<Rightarrow> real" where
  "py_mul env a b = float_of env (a * b)"

definition py_floordiv :: "env \<Rightarrow> real \<Rightarrow> real \<Rightarrow> real" where
  "py_floordiv env a b = float_of env (of_int \<lfloor>a / b\<rfloor>)"

definition py_mod :: "env \<Rightarrow> real \<Rightarrow> real \<Rightarrow> real" where
  "py_mod env a b = float_of env (a - b * of_int \<lfloor>a / b\<rfloor>)"

text \<open>\<open>int(x)\<close> on a float truncates towards zero.\<close>

definition py_int :: "real \<Rightarrow> int" where
  "py_int x = (if x < 0 then \<lceil>x\<rceil> else \<lfloor>x\<rfloor>)"

text \<open>The format specification \<open>{n:0wd}\<close>: decimal digits, zero-padded to width \<open>w\<close>
  after the sign.\<close>

definition digit_char :: "nat \<Rightarrow> char" where
  "digit_char d = ''0123456789'' ! (d mod 10)"

fun decimal :: "nat \<Rightarrow> string" where
  "decimal n = (if n < 10 then [digit_char n] else decimal (n div 10) @ [digit_char (n mod 10)])"

declare decimal.simps [simp del]

definition zfill :: "nat \<Rightarrow> string \<Rightarrow> string" where
  "zfill w s = replicate (w - length s) CHR ''0'' @ s"

definition format_d :: "nat \<Rightarrow> int \<Rightarrow> string" where
  "format_d w n =
     (if n < 0 then CHR ''-'' # zfill (w - 1) (decimal (nat (- n)))
      else zfill w (decimal (nat n)))"

section \<open>The player (\<open>app/services/media_player.py\<close>)\<close>

text \<open>
  The fields of \<open>MediaPlayer\<close>. \<open>cap\<close> is \<open>None\<close> or an opened capture, of which the model
  keeps the read position (\<open>CAP_PROP_POS_FRAMES\<close>). \<open>play_thread\<close> is \<open>None\<close> or the
  thread object that runs \<open>_play_video\<close>, of which the model keeps where the thread
  stands: created and not started, at the test of the \<open>while\<close> loop, inside the body of
  the loop past the test of \<open>is_paused\<close>, or finished.

  A method called by a route is one transformer of the state. The playback thread
  runs beside the routes; one step of it is \<open>MediaPlayer_play_video\<close> below, and
  a run of the program interleaves these steps with the methods.
\<close>

datatype thread = NotStarted | AtLoopTest | InLoopBody | Finished

record MediaPlayer =
  video_path :: string
  cap :: "nat option"
  is_playing :: bool
  is_paused :: bool
  current_frame :: int
  total_frames :: int
  fps :: real
  speed :: real
  play_thread :: "thread option"

definition VALID_SPEEDS :: "real list" where
  "VALID_SPEEDS = [0.5, 1.0, 2.0, 4.0]"

text \<open>\<open>_load_video\<close>: opens the capture or raises \<open>ValueError\<close>; reads the frame count
  and the frame rate, with 30 as fallback for a frame rate that is not positive.\<close>

definition MediaPlayer_load_video :: "env \<Rightarrow> MediaPlayer \<Rightarrow> (exn + unit) \<times> MediaPlayer" where
  "MediaPlayer_load_video env self =
     (case VideoCapture env (video_path self) of
        None \<Rightarrow> (Inl (ValueError (''Could not open video file: '' @ video_path self)), self)
      | Some (frame_count, cap_fps) \<Rightarrow>
          (let self = self\<lparr>cap := Some 0\<rparr>;
               self = self\<lparr>total_frames := py_int frame_count\<rparr>;
               self = self\<lparr>fps := cap_fps\<rparr>
           in (Inr (), if fps self \<le> 0 then self\<lparr>fps := 30\<rparr> else self)))"

text \<open>\<open>__init__\<close>: the constructor gives the new object, or the exception of
  \<open>_load_video\<close> and no object.\<close>

definition MediaPlayer_init :: "env \<Rightarrow> string \<Rightarrow> exn + MediaPlayer" where
  "MediaPlayer_init env path =
     (let self = \<lparr>video_path = path, cap = None, is_playing = False, is_paused = False,
                  current_frame = 0, total_frames = 0, fps = 30, speed = 1,
                  play_thread = None\<rparr>
      in case MediaPlayer_load_video env self of
           (Inl e, _) \<Rightarrow> Inl e
         | (Inr _, self) \<Rightarrow> Inr self)"

definition MediaPlayer_set_speed :: "real \<Rightarrow> MediaPlayer \<Rightarrow> (exn + unit) \<times> MediaPlayer" where
  "MediaPlayer_set_speed s self =
     (if s \<in> set VALID_SPEEDS then (Inr (), self\<lparr>speed := s\<rparr>)
      else (Inl (ValueError ''Invalid speed. Must be one of: [0.5, 1.0, 2.0, 4.0]''), self))"

text \<open>\<open>play\<close>: the optional speed is set first, and its exception leaves the method
  before any flag is touched; then the thread is created and started, or the pause is
  lifted. When \<open>start()\<close> raises, the flags and the thread object are already written.\<close>

definition play :: "env \<Rightarrow> real option \<Rightarrow> MediaPlayer \<Rightarrow> (exn + unit) \<times> MediaPlayer" where
  "play env spd self =
     (case (case spd of None \<Rightarrow> (Inr (), self) | Some s \<Rightarrow> MediaPlayer_set_speed s self) of
        (Inl e, self) \<Rightarrow> (Inl e, self)
      | (Inr _, self) \<Rightarrow>
          (if \<not> is_playing self
           then (let self = self\<lparr>is_playing := True\<rparr>;
                     self = self\<lparr>is_paused := False\<rparr>;
                     self = self\<lparr>play_thread := Some NotStarted\<rparr>
                 in case Thread_start env of
                      Some m \<Rightarrow> (Inl (RuntimeError m), self)
                    | None \<Rightarrow> (Inr (), self\<lparr>play_thread := Some AtLoopTest\<rparr>))
           else (Inr (), self\<lparr>is_paused := False\<rparr>)))"

definition pause :: "MediaPlayer \<Rightarrow> MediaPlayer" where
  "pause self = (if is_playing self then self\<lparr>is_paused := True\<rparr> else self)"

text \<open>
  \<open>_play_video\<close>, the playback thread, one step at a time. At the loop test it leaves
  the loop when \<open>is_playing\<close> is false or there is no capture, sleeps and tests again
  when \<open>is_paused\<close> is set, and enters the body otherwise. In the body it reads a
  frame: without a frame it leaves the loop; with one it shows it, adds one to
  \<open>current_frame\<close>, and leaves the loop on \<open>q\<close> or ESC or goes back to the test; when a
  call of the body raises, the thread ends there. Behind the loop the thread writes
  \<open>is_playing = False\<close>, and nothing else of the object.
\<close>

definition leave_loop :: "MediaPlayer \<Rightarrow> MediaPlayer" where
  "leave_loop self = self\<lparr>is_playing := False, play_thread := Some Finished\<rparr>"

definition MediaPlayer_play_video :: "frame_event \<Rightarrow> MediaPlayer \<Rightarrow> MediaPlayer" where
  "MediaPlayer_play_video ev self =
     (case play_thread self of
        Some AtLoopTest \<Rightarrow>
          (if is_playing self \<and> cap self \<noteq> None
           then (if is_paused self then self else self\<lparr>play_thread := Some InLoopBody\<rparr>)
           else leave_loop self)
      | Some InLoopBody \<Rightarrow>
          (case ev of
             NoFrame \<Rightarrow> leave_loop self
           | Raised \<Rightarrow> self\<lparr>play_thread := Some Finished\<rparr>
           | Frame quit \<Rightarrow>
               (let self = self\<lparr>cap := map_option Suc (cap self)\<rparr>;
                    self = self\<lparr>current_frame := current_frame self + 1\<rparr>
                in if quit then leave_loop self else self\<lparr>play_thread := Some AtLoopTest\<rparr>))
      | _ \<Rightarrow> self)"

text \<open>
  \<open>play_thread.join()\<close> raises \<open>RuntimeError\<close> for a thread that was not started, and
  otherwise returns when the thread has finished. Its only call is in \<open>stop\<close>, behind
  \<open>is_playing = False\<close>: the thread then finishes the body it is in, if it is in one,
  and fails the next loop test, which are two steps at most.
\<close>

definition join :: "env \<Rightarrow> MediaPlayer \<Rightarrow> (exn + unit) \<times> MediaPlayer" where
  "join env self =
     (if play_thread self = Some NotStarted
      then (Inl (RuntimeError ''cannot join thread before it is started''), self)
      else (Inr (),
            MediaPlayer_play_video (joined_frame env)
              (MediaPlayer_play_video (joined_frame env) self)))"

text \<open>\<open>stop\<close> and \<open>reset\<close>: an exception of \<open>join\<close>, \<open>cv2.destroyAllWindows\<close> or
  \<open>cap.set\<close> leaves the method with the writes made so far.\<close>

definition stop :: "env \<Rightarrow> MediaPlayer \<Rightarrow> (exn + unit) \<times> MediaPlayer" where
  "stop env self =
     (let self = self\<lparr>is_playing := False\<rparr>;
          self = self\<lparr>is_paused := False\<rparr>
      in case (case play_thread self of
                 Some t \<Rightarrow> join env self
               | None \<Rightarrow> (Inr (), self)) of
           (Inl e, self) \<Rightarrow> (Inl e, self)
         | (Inr _, self) \<Rightarrow>
             (case destroyAllWindows env of
                Some m \<Rightarrow> (Inl (cv2_error m), self)
              | None \<Rightarrow> (Inr (), self)))"

definition reset :: "env \<Rightarrow> MediaPlayer \<Rightarrow> (exn + unit) \<times> MediaPlayer" where
  "reset env self =
     (case stop env self of
        (Inl e, self) \<Rightarrow> (Inl e, self)
      | (Inr _, self) \<Rightarrow>
          (let self = self\<lparr>current_frame := 0\<rparr>
           in case cap self of
                Some pos \<Rightarrow>
                  (case cap_set env of
                     Some m \<Rightarrow> (Inl (cv2_error m), self)
                   | None \<Rightarrow> (Inr (), self\<lparr>cap := Some 0\<rparr>))
              | None \<Rightarrow> (Inr (), self)))"

text \<open>\<open>_get_timestamp\<close>: the time of the current frame as \<open>MM:SS:mmm\<close>. The division
  turns the frame number into a float first.\<close>

definition MediaPlayer_get_timestamp :: "env \<Rightarrow> MediaPlayer \<Rightarrow> string" where
  "MediaPlayer_get_timestamp env self =
     (if fps self > 0 then
        (let current_time = py_truediv env (float_of env (of_int (current_frame self))) (fps self);
             minutes = py_int (py_floordiv env current_time 60);
             seconds = py_int (py_mod env current_time 60);
             milliseconds = py_int (py_mul env (py_mod env current_time 1) 1000)
         in format_d 2 minutes @ '':'' @ format_d 2 seconds @ '':'' @ format_d 3 milliseconds)
      else ''00:00:000'')"

definition MediaPlayer_get_status :: "env \<Rightarrow> MediaPlayer \<Rightarrow> pydict" where
  "MediaPlayer_get_status env self =
     [(''is_playing'', PyBool (is_playing self)),
      (''is_paused'', PyBool (is_paused self)),
      (''current_frame'', PyInt (current_frame self)),
      (''total_frames'', PyInt (total_frames self)),
      (''speed'', PyFloat (speed self)),
      (''timestamp'', PyStr (MediaPlayer_get_timestamp env self)),
      (''video_path'', PyStr (video_path self)),
      (''fps'', PyFloat (fps self))]"

section \<open>The service (\<open>app/services/video_service.py\<close>)\<close>

record VideoService =
  media_player :: "MediaPlayer option"

definition VideoService_init :: VideoService where
  "VideoService_init = \<lparr>media_player = None\<rparr>"

type_synonym response = "(exn + pydict) \<times> VideoService"

text \<open>
  \<open>load_video\<close>: the body of the \<open>try\<close> block, and the method with its handler
  \<open>except Exception as e: raise HTTPException(status_code=400, detail=str(e))\<close>, which
  receives every exception of the body, the \<open>HTTPException\<close> raised there included.
\<close>

definition load_video_try :: "env \<Rightarrow> string \<Rightarrow> VideoService \<Rightarrow> response" where
  "load_video_try env path self =
     (if \<not> path_exists env path
      then (Inl (HTTPException 404 ''Video file not found''), self)
      else case MediaPlayer_init env path of
             Inl e \<Rightarrow> (Inl e, self)
           | Inr mp \<Rightarrow>
               (Inr [(''message'', PyStr ''Video loaded successfully''), (''path'', PyStr path)],
                self\<lparr>media_player := Some mp\<rparr>))"

definition load_video :: "env \<Rightarrow> string \<Rightarrow> VideoService \<Rightarrow> response" where
  "load_video env path self =
     (case load_video_try env path self of
        (Inl e, self) \<Rightarrow> (Inl (HTTPException 400 (str_exn env e)), self)
      | (Inr r, self) \<Rightarrow> (Inr r, self))"

definition play_video :: "env \<Rightarrow> real option \<Rightarrow> VideoService \<Rightarrow> response" where
  "play_video env spd self =
     (case media_player self of
        None \<Rightarrow> (Inl (HTTPException 400 ''No video loaded''), self)
      | Some mp \<Rightarrow>
          (case play env spd mp of
             (Inl e, mp) \<Rightarrow>
               (Inl (HTTPException 400 (str_exn env e)), self\<lparr>media_player := Some mp\<rparr>)
           | (Inr _, mp) \<Rightarrow>
               (Inr [(''message'', PyStr ''Video playback started''), (''speed'', PyFloat (speed mp))],
                self\<lparr>media_player := Some mp\<rparr>)))"

definition pause_video :: "VideoService \<Rightarrow> response" where
  "pause_video self =
     (case media_player self of
        None \<Rightarrow> (Inl (HTTPException 400 ''No video loaded''), self)
      | Some mp \<Rightarrow>
          (Inr [(''message'', PyStr ''Video playback paused'')],
           self\<lparr>media_player := Some (pause mp)\<rparr>))"

text \<open>\<open>stop_video\<close> and \<open>reset_video\<close> have no handler: an exception of the player's
  method leaves the service as it is.\<close>

definition stop_video :: "env \<Rightarrow> VideoService \<Rightarrow> response" where
  "stop_video env self =
     (case media_player self of
        None \<Rightarrow> (Inl (HTTPException 400 ''No video loaded''), self)
      | Some mp \<Rightarrow>
          (case stop env mp of
             (Inl e, mp) \<Rightarrow> (Inl e, self\<lparr>media_player := Some mp\<rparr>)
           | (Inr _, mp) \<Rightarrow>
               (Inr [(''message'', PyStr ''Video playback stopped'')],
                self\<lparr>media_player := Some mp\<rparr>)))"

definition reset_video :: "env \<Rightarrow> VideoService \<Rightarrow> response" where
  "reset_video env self =
     (case media_player self of
        None \<Rightarrow> (Inl (HTTPException 400 ''No video loaded''), self)
      | Some mp \<Rightarrow>
          (case reset env mp of
             (Inl e, mp) \<Rightarrow> (Inl e, self\<lparr>media_player := Some mp\<rparr>)
           | (Inr _, mp) \<Rightarrow>
               (Inr [(''message'', PyStr ''Video reset to beginning'')],
                self\<lparr>media_player := Some mp\<rparr>)))"

text \<open>\<open>set_speed\<close>: the handler is \<open>except ValueError\<close>, any other exception passes.\<close>

definition set_speed :: "env \<Rightarrow> real \<Rightarrow> VideoService \<Rightarrow> response" where
  "set_speed env s self =
     (case media_player self of
        None \<Rightarrow> (Inl (HTTPException 400 ''No video loaded''), self)
      | Some mp \<Rightarrow>
          (case MediaPlayer_set_speed s mp of
             (Inl (ValueError m), mp) \<Rightarrow>
               (Inl (HTTPException 400 (str_exn env (ValueError m))),
                self\<lparr>media_player := Some mp\<rparr>)
           | (Inl e, mp) \<Rightarrow> (Inl e, self\<lparr>media_player := Some mp\<rparr>)
           | (Inr _, mp) \<Rightarrow>
               (Inr [(''message'', PyStr (''Speed set to '' @ str_float env s @ ''x'')),
                     (''speed'', PyFloat s)],
                self\<lparr>media_player := Some mp\<rparr>)))"

definition get_status :: "env \<Rightarrow> VideoService \<Rightarrow> pydict" where
  "get_status env self =
     (case media_player self of
        None \<Rightarrow> [(''loaded'', PyBool False)]
      | Some mp \<Rightarrow>
          (let status = MediaPlayer_get_status env mp
           in AList.update ''loaded'' (PyBool True) status))"

section \<open>The routes (\<open>app/routes/video.py\<close>)\<close>

text \<open>One request to the router, with the argument the route hands to the service.\<close>

datatype request =
    POST_load_video string
  | POST_play "real option"
  | POST_pause
  | POST_stop
  | POST_reset
  | POST_set_speed real
  | GET_status

fun router :: "env \<Rightarrow> request \<Rightarrow> VideoService \<Rightarrow> response" where
  "router env (POST_load_video path) video_service = load_video env path video_service"
| "router env (POST_play spd) video_service = play_video env spd video_service"
| "router env POST_pause video_service = pause_video video_service"
| "router env POST_stop video_service = stop_video env video_service"
| "router env POST_reset video_service = reset_video env video_service"
| "router env (POST_set_speed s) video_service = set_speed env s video_service"
| "router env GET_status video_service = (Inr (get_status env video_service), video_service)"

section \<open>The control invariant and a sample world\<close>

text \<open>The player is paused only while it is playing.\<close>

definition control_invariant :: "MediaPlayer \<Rightarrow> bool" where
  "control_invariant mp = (is_paused mp \<longrightarrow> is_playing mp)"

text \<open>
  A concrete world for the closed instances below: two paths exist, of which only
  \<open>clip.mp4\<close> opens as a video (250 frames at 25 frames per second); every library call
  returns; \<open>str\<close> of an \<open>HTTPException\<close> is \<open>"<status_code>: <detail>"\<close>; the rounding
  is that of binary64 on the two inexact results that the timestamp of frame 42 at 25
  frames per second meets (\<open>42 / 25\<close> and the product by 1000), and is not reached
  otherwise; a joined playback thread that is in the loop body shows one more frame. The second world is
  the same on an OpenCV build without window support, where
  \<open>cv2.destroyAllWindows()\<close> raises. The sample player is playing and paused at frame
  42, at speed 2, its thread sleeping at the loop test; the fresh player is the one
  that the constructor gives for \<open>clip.mp4\<close>.
\<close>

definition demo_env :: env where
  "demo_env =
     \<lparr>path_exists = (\<lambda>p. p = ''clip.mp4'' \<or> p = ''notes.txt''),
      VideoCapture = (\<lambda>p. if p = ''clip.mp4'' then Some (250, 25) else None),
      destroyAllWindows = None,
      cap_set = None,
      Thread_start = None,
      str_HTTPException = (\<lambda>c d. decimal (nat c) @ '': '' @ d),
      str_float = (\<lambda>x. if x = 0.5 then ''0.5'' else decimal (nat \<lfloor>x\<rfloor>) @ ''.0''),
      nearest_double =
        (\<lambda>x. if x = 42 / 25 then 7566047373982433 / 4503599627370496
             else if x = 382805968326492125 / 562949953421312
             then 5981343255101439 / 8796093022208
             else x),
      joined_frame = Frame False\<rparr>"

definition headless_env :: env where
  "headless_env = demo_env\<lparr>destroyAllWindows := Some ''The function is not implemented''\<rparr>"

definition demo_player :: MediaPlayer where
  "demo_player =
     \<lparr>video_path = ''clip.mp4'', cap = Some 42, is_playing = True, is_paused = True,
      current_frame = 42, total_frames = 250, fps = 25, speed = 2,
      play_thread = Some AtLoopTest\<rparr>"

definition demo_service :: VideoService where
  "demo_service = \<lparr>media_player = Some demo_player\<rparr>"

definition fresh_player :: MediaPlayer where
  "fresh_player =
     \<lparr>video_path = ''clip.mp4'', cap = Some 0, is_playing = False, is_paused = False,
      current_frame = 0, total_frames = 250, fps = 25, speed = 1, play_thread = None\<rparr>"

definition fresh_service :: VideoService where
  "fresh_service = \<lparr>media_player = Some fresh_player\<rparr>"


section \<open>Auxiliary facts\<close>

lemma decimal_0: "decimal 0 = ''0''"
  by (simp add: decimal.simps digit_char_def)

lemma decimal_4: "decimal 4 = ''4''"
  by (simp add: decimal.simps digit_char_def)

lemma decimal_404: "decimal 404 = ''404''"
  by (simp add: decimal.simps digit_char_def)

lemma format_d_0: "format_d 2 0 = ''00''" "format_d 3 0 = ''000''"
  by (simp_all add: format_d_def zfill_def decimal_0 eval_nat_numeral)

lemma float_of_0: "float_of env 0 = 0"
  by (simp add: float_of_def)

lemma timestamp_at_frame_0:
  "current_frame mp = 0 \<Longrightarrow> MediaPlayer_get_timestamp env mp = ''00:00:000''"
  by (simp add: MediaPlayer_get_timestamp_def py_truediv_def py_floordiv_def py_mod_def
      py_mul_def py_int_def float_of_0 format_d_0)

lemma MediaPlayer_set_speed_invalid:
  "s \<notin> set VALID_SPEEDS \<Longrightarrow>
   MediaPlayer_set_speed s mp =
     (Inl (ValueError ''Invalid speed. Must be one of: [0.5, 1.0, 2.0, 4.0]''), mp)"
  by (simp add: MediaPlayer_set_speed_def)

lemma MediaPlayer_init_opened:
  "VideoCapture env p = Some (n, f) \<Longrightarrow>
   MediaPlayer_init env p =
     Inr \<lparr>video_path = p, cap = Some 0, is_playing = False, is_paused = False,
          current_frame = 0, total_frames = py_int n, fps = (if f \<le> 0 then 30 else f),
          speed = 1, play_thread = None\<rparr>"
  by (simp add: MediaPlayer_init_def MediaPlayer_load_video_def)

lemma MediaPlayer_init_failed:
  "VideoCapture env p = None \<Longrightarrow>
   MediaPlayer_init env p = Inl (ValueError (''Could not open video file: '' @ p))"
  by (simp add: MediaPlayer_init_def MediaPlayer_load_video_def)

lemma init_flags:
  "MediaPlayer_init env path = Inr mp \<Longrightarrow> \<not> is_playing mp \<and> \<not> is_paused mp"
  by (cases "VideoCapture env path")
    (auto simp add: MediaPlayer_init_opened MediaPlayer_init_failed)

text \<open>The playback thread writes \<open>is_playing\<close>, \<open>current_frame\<close> and the position of
  the capture only, and never sets \<open>is_playing\<close>.\<close>

lemma worker_keeps:
  "video_path (MediaPlayer_play_video ev mp) = video_path mp"
  "total_frames (MediaPlayer_play_video ev mp) = total_frames mp"
  "fps (MediaPlayer_play_video ev mp) = fps mp"
  "speed (MediaPlayer_play_video ev mp) = speed mp"
  "is_paused (MediaPlayer_play_video ev mp) = is_paused mp"
  by (simp_all add: MediaPlayer_play_video_def leave_loop_def Let_def
      split: option.splits thread.splits frame_event.splits)

lemma worker_not_playing:
  "\<not> is_playing mp \<Longrightarrow> \<not> is_playing (MediaPlayer_play_video ev mp)"
  by (simp add: MediaPlayer_play_video_def leave_loop_def Let_def
      split: option.splits thread.splits frame_event.splits)

lemma join_keeps:
  "video_path (snd (join env mp)) = video_path mp"
  "total_frames (snd (join env mp)) = total_frames mp"
  "fps (snd (join env mp)) = fps mp"
  "speed (snd (join env mp)) = speed mp"
  "is_paused (snd (join env mp)) = is_paused mp"
  by (simp_all add: join_def worker_keeps)

lemma join_not_playing: "\<not> is_playing mp \<Longrightarrow> \<not> is_playing (snd (join env mp))"
  by (simp add: join_def worker_not_playing)

text \<open>Behind \<open>is_playing = False\<close>, a thread that was started has finished when \<open>join\<close>
  returns.\<close>

lemma join_finishes:
  "\<not> is_playing mp \<Longrightarrow> play_thread mp = Some t \<Longrightarrow> t \<noteq> NotStarted \<Longrightarrow>
   fst (join env mp) = Inr () \<and> play_thread (snd (join env mp)) = Some Finished"
  by (cases t; cases "joined_frame env")
    (simp_all add: join_def MediaPlayer_play_video_def leave_loop_def Let_def)

lemma stop_snd:
  "snd (stop env mp) =
     (case play_thread mp of
        None \<Rightarrow> mp\<lparr>is_playing := False, is_paused := False\<rparr>
      | Some t \<Rightarrow> snd (join env (mp\<lparr>is_playing := False, is_paused := False\<rparr>)))"
  by (simp add: stop_def Let_def split: option.splits prod.splits sum.splits)

lemma stop_flags: "\<not> is_playing (snd (stop env mp))" "\<not> is_paused (snd (stop env mp))"
  by (simp_all add: stop_snd join_keeps join_not_playing split: option.splits)

lemma stop_keeps:
  "video_path (snd (stop env mp)) = video_path mp"
  "total_frames (snd (stop env mp)) = total_frames mp"
  "fps (snd (stop env mp)) = fps mp"
  "speed (snd (stop env mp)) = speed mp"
  by (simp_all add: stop_snd join_keeps split: option.splits)

lemma reset_snd:
  "snd (reset env mp) = snd (stop env mp) \<or>
   snd (reset env mp) = (snd (stop env mp))\<lparr>current_frame := 0\<rparr> \<or>
   snd (reset env mp) = (snd (stop env mp))\<lparr>current_frame := 0, cap := Some 0\<rparr>"
  by (simp add: reset_def Let_def split: option.splits prod.splits sum.splits)

lemma reset_flags: "\<not> is_playing (snd (reset env mp))" "\<not> is_paused (snd (reset env mp))"
  using reset_snd [of env mp] stop_flags [of env mp] by auto

lemma reset_keeps:
  "video_path (snd (reset env mp)) = video_path mp"
  "total_frames (snd (reset env mp)) = total_frames mp"
  "fps (snd (reset env mp)) = fps mp"
  "speed (snd (reset env mp)) = speed mp"
  using reset_snd [of env mp] stop_keeps [of env mp] by auto

lemma reset_returns: "reset env mp = (Inr u, mp') \<Longrightarrow> current_frame mp' = 0"
  by (auto simp add: reset_def Let_def split: option.splits prod.splits sum.splits)

text \<open>When \<open>stop\<close> and \<open>reset\<close> return and what they raise.\<close>

lemma stop_returns_if:
  "play_thread mp \<noteq> Some NotStarted \<Longrightarrow> destroyAllWindows env = None \<Longrightarrow>
   fst (stop env mp) = Inr ()"
  by (simp add: stop_def join_def Let_def split: option.splits)

lemma reset_returns_if:
  "play_thread mp \<noteq> Some NotStarted \<Longrightarrow> destroyAllWindows env = None \<Longrightarrow>
   cap_set env = None \<Longrightarrow> fst (reset env mp) = Inr ()"
  using stop_returns_if [of mp env]
  by (cases "stop env mp") (simp add: reset_def Let_def split: option.splits)

lemma stop_raises:
  "stop env mp = (Inl e, mp') \<Longrightarrow> \<exists>m. e = RuntimeError m \<or> e = cv2_error m"
  by (auto simp add: stop_def join_def Let_def split: option.splits if_splits)

lemma reset_raises:
  "reset env mp = (Inl e, mp') \<Longrightarrow> \<exists>m. e = RuntimeError m \<or> e = cv2_error m"
  using stop_raises [of env mp]
  by (cases "stop env mp") (auto simp add: reset_def Let_def split: option.splits sum.splits)

text \<open>Each method of the player keeps the control invariant.\<close>

lemma play_invariant:
  "control_invariant mp \<Longrightarrow> control_invariant (snd (play env spd mp))"
  by (auto simp add: play_def MediaPlayer_set_speed_def control_invariant_def Let_def
      split: option.splits)

lemma pause_invariant: "control_invariant mp \<Longrightarrow> control_invariant (pause mp)"
  by (auto simp add: pause_def control_invariant_def)

lemma stop_invariant: "control_invariant (snd (stop env mp))"
  by (simp add: control_invariant_def stop_flags)

lemma reset_invariant: "control_invariant (snd (reset env mp))"
  by (simp add: control_invariant_def reset_flags)

lemma init_invariant: "MediaPlayer_init env path = Inr mp \<Longrightarrow> control_invariant mp"
  using init_flags [of env path mp] by (simp add: control_invariant_def)

text \<open>What each method of the service can raise.\<close>

lemma load_video_raises:
  "load_video env p svc = (Inl e, svc') \<Longrightarrow> \<exists>d. e = HTTPException 400 d"
  by (auto simp add: load_video_def split: prod.splits sum.splits)

lemma play_video_raises:
  "play_video env spd svc = (Inl e, svc') \<Longrightarrow> \<exists>d. e = HTTPException 400 d"
  by (auto simp add: play_video_def split: option.splits prod.splits sum.splits)

lemma pause_video_raises:
  "pause_video svc = (Inl e, svc') \<Longrightarrow> e = HTTPException 400 ''No video loaded''"
  by (auto simp add: pause_video_def split: option.splits)

lemma stop_video_raises:
  "stop_video env svc = (Inl e, svc') \<Longrightarrow>
   e = HTTPException 400 ''No video loaded'' \<or> (\<exists>m. e = RuntimeError m \<or> e = cv2_error m)"
  by (auto simp add: stop_video_def split: option.splits prod.splits sum.splits
      dest: stop_raises)

lemma reset_video_raises:
  "reset_video env svc = (Inl e, svc') \<Longrightarrow>
   e = HTTPException 400 ''No video loaded'' \<or> (\<exists>m. e = RuntimeError m \<or> e = cv2_error m)"
  by (auto simp add: reset_video_def split: option.splits prod.splits sum.splits
      dest: reset_raises)

lemma set_speed_raises:
  "set_speed env s svc = (Inl e, svc') \<Longrightarrow> \<exists>d. e = HTTPException 400 d"
  by (auto simp add: set_speed_def MediaPlayer_set_speed_def split: option.splits if_splits)

text \<open>
  Every failure of a route is an \<open>HTTPException\<close> with status 400, but for the
  exceptions of the libraries in \<open>stop\<close> and \<open>reset\<close>, which pass as they are.
\<close>

lemma router_failures:
  assumes failed: "router env req svc = (Inl e, svc')"
  shows "(\<exists>d. e = HTTPException 400 d) \<or>
         ((req = POST_stop \<or> req = POST_reset) \<and> (\<exists>m. e = RuntimeError m \<or> e = cv2_error m))"
proof (cases req)
  case (POST_load_video p)
  with failed load_video_raises [of env p svc e svc'] show ?thesis by auto
next
  case (POST_play spd)
  with failed play_video_raises [of env spd svc e svc'] show ?thesis by auto
next
  case POST_pause
  with failed pause_video_raises [of svc e svc'] show ?thesis by auto
next
  case POST_stop
  with failed stop_video_raises [of env svc e svc'] show ?thesis by auto
next
  case POST_reset
  with failed reset_video_raises [of env svc e svc'] show ?thesis by auto
next
  case (POST_set_speed s)
  with failed set_speed_raises [of env s svc e svc'] show ?thesis by auto
next
  case GET_status
  with failed show ?thesis by simp
qed

text \<open>Facts of the sample world.\<close>

lemma demo_loaded: "media_player demo_service = Some demo_player"
  by (simp add: demo_service_def)

lemma three_invalid: "(3::real) \<notin> set VALID_SPEEDS"
  by (simp add: VALID_SPEEDS_def)

lemma demo_clip:
  "path_exists demo_env ''clip.mp4''" "VideoCapture demo_env ''clip.mp4'' = Some (250, 25)"
  by (simp_all add: demo_env_def)

lemma demo_notes:
  "path_exists demo_env ''notes.txt''" "VideoCapture demo_env ''notes.txt'' = None"
  by (simp_all add: demo_env_def)

lemma demo_init: "MediaPlayer_init demo_env ''clip.mp4'' = Inr fresh_player"
  by (simp add: MediaPlayer_init_opened [OF demo_clip(2)] py_int_def fresh_player_def)

lemma demo_library:
  "destroyAllWindows demo_env = None" "cap_set demo_env = None" "Thread_start demo_env = None"
  "joined_frame demo_env = Frame False"
  by (simp_all add: demo_env_def)

lemma headless_library:
  "destroyAllWindows headless_env = Some ''The function is not implemented''"
  "path_exists headless_env = path_exists demo_env"
  "VideoCapture headless_env = VideoCapture demo_env"
  by (simp_all add: headless_env_def)

lemma demo_reset:
  "reset_video demo_env demo_service =
     (Inr [(''message'', PyStr ''Video reset to beginning'')],
      \<lparr>media_player =
          Some \<lparr>video_path = ''clip.mp4'', cap = Some 0, is_playing = False,
                is_paused = False, current_frame = 0, total_frames = 250, fps = 25,
                speed = 2, play_thread = Some Finished\<rparr>\<rparr>)"
  by (simp add: reset_video_def reset_def stop_def join_def MediaPlayer_play_video_def
      leave_loop_def demo_service_def demo_player_def demo_library)

lemma fresh_loaded: "media_player fresh_service = Some fresh_player"
  by (simp add: fresh_service_def)

lemma fresh_thread: "play_thread fresh_player \<noteq> Some NotStarted"
  by (simp add: fresh_player_def)

lemma reset_video_loaded:
  "media_player svc = Some mp \<Longrightarrow>
   reset_video env svc =
     (case fst (reset env mp) of
        Inl e \<Rightarrow> Inl e
      | Inr u \<Rightarrow> Inr [(''message'', PyStr ''Video reset to beginning'')],
      svc\<lparr>media_player := Some (snd (reset env mp))\<rparr>)"
  by (simp add: reset_video_def split: prod.splits sum.splits)

lemma stop_video_loaded:
  "media_player svc = Some mp \<Longrightarrow>
   stop_video env svc =
     (case fst (stop env mp) of
        Inl e \<Rightarrow> Inl e
      | Inr u \<Rightarrow> Inr [(''message'', PyStr ''Video playback stopped'')],
      svc\<lparr>media_player := Some (snd (stop env mp))\<rparr>)"
  by (simp add: stop_video_def split: prod.splits sum.splits)

lemma stop_window_error:
  "play_thread mp \<noteq> Some NotStarted \<Longrightarrow> destroyAllWindows env = Some m \<Longrightarrow>
   fst (stop env mp) = Inl (cv2_error m)"
  by (simp add: stop_def join_def Let_def split: option.splits)

lemma reset_window_error:
  "play_thread mp \<noteq> Some NotStarted \<Longrightarrow> destroyAllWindows env = Some m \<Longrightarrow>
   fst (reset env mp) = Inl (cv2_error m)"
  using stop_window_error [of mp env m]
  by (cases "stop env mp") (simp add: reset_def)

lemma fresh_stop: "snd (stop env fresh_player) = fresh_player"
  by (simp add: stop_snd fresh_player_def)

lemma demo_race:
  "MediaPlayer_play_video NoFrame (snd (play demo_env None fresh_player)) =
     fresh_player\<lparr>is_playing := True, play_thread := Some InLoopBody\<rparr>"
  by (simp add: play_def MediaPlayer_play_video_def fresh_player_def demo_library)

text \<open>The timestamp of the sample player, as binary64 arithmetic gives it: the
  quotient \<open>42 / 25\<close> rounds below 1.68, and the milliseconds truncate to 679.\<close>

lemma demo_rounding: "nearest_double demo_env =
        (\<lambda>x. if x = 42 / 25 then 7566047373982433 / 4503599627370496
             else if x = 382805968326492125 / 562949953421312
             then 5981343255101439 / 8796093022208
             else x)"
  by (simp add: demo_env_def)

lemma demo_current_time: "py_truediv demo_env (float_of demo_env 42) 25 = 7566047373982433 / 4503599627370496"
  by (simp add: py_truediv_def float_of_def demo_rounding)

lemma demo_minutes: "py_int (py_floordiv demo_env (7566047373982433 / 4503599627370496) 60) = 0"
  by (simp add: py_floordiv_def float_of_def py_int_def)

lemma demo_seconds: "py_int (py_mod demo_env (7566047373982433 / 4503599627370496) 60) = 1"
  by (simp add: py_mod_def float_of_def py_int_def demo_rounding)

lemma demo_fraction: "py_mod demo_env (7566047373982433 / 4503599627370496) 1 = 3062447746611937 / 4503599627370496"
  by (simp add: py_mod_def float_of_def demo_rounding)

lemma demo_milliseconds: "py_int (py_mul demo_env (3062447746611937 / 4503599627370496) 1000) = 679"
  by (simp add: py_mul_def float_of_def py_int_def demo_rounding)

lemma decimal_Suc_0: "decimal (Suc 0) = ''1''"
  by (simp add: decimal.simps digit_char_def)

lemma decimal_679: "decimal 679 = ''679''"
  by (simp add: decimal.simps digit_char_def)

lemma demo_format: "format_d 2 1 = ''01''" "format_d 3 679 = ''679''"
  by (simp_all add: format_d_def zfill_def decimal_Suc_0 decimal_679)

lemma demo_timestamp: "MediaPlayer_get_timestamp demo_env demo_player = ''00:01:679''"
  by (simp add: MediaPlayer_get_timestamp_def demo_player_def Let_def demo_current_time demo_minutes
      demo_seconds demo_fraction demo_milliseconds demo_format format_d_0)

section \<open>Loading a video\<close>

text \<open>
  Claim C1: for a path at which no file exists, \<open>load_video\<close> raises an HTTP error with
  status 404 and detail "Video file not found", and leaves \<open>media_player\<close> as it was.

  The code raises that error inside its \<open>try\<close> block, where \<open>except Exception\<close>
  catches it and raises a new one with status 400, whose detail is \<open>str\<close> of the
  first. What the method does for a missing file is therefore: status 400, service
  unchanged.
\<close>

theorem load_video_missing_file:
  "\<not> path_exists env p \<Longrightarrow>
   load_video env p svc =
     (Inl (HTTPException 400 (str_HTTPException env 404 ''Video file not found'')), svc)"
  by (simp add: load_video_def load_video_try_def)

theorem load_video_missing_file_witness:
  "\<not> path_exists demo_env ''missing.mp4'' \<and>
   load_video demo_env ''missing.mp4'' VideoService_init =
     (Inl (HTTPException 400 ''404: Video file not found''), VideoService_init)"
  using load_video_missing_file [of demo_env "''missing.mp4''" VideoService_init]
  by (simp add: demo_env_def decimal_404)

text \<open>
  Claim C6: for a path at which a file exists and which the video library opens,
  \<open>load_video\<close> returns the message and the path and installs a new player with speed 1,
  not playing, not paused, at frame 0 (its frame count and frame rate are those of the
  capture, the frame rate replaced by 30 when it is not positive); when the file exists
  and does not open, \<open>load_video\<close> fails with status 400 and the service is unchanged.
\<close>

theorem load_video_existing_file:
  "path_exists env p \<Longrightarrow>
   (\<forall>n f. VideoCapture env p = Some (n, f) \<longrightarrow>
      load_video env p svc =
        (Inr [(''message'', PyStr ''Video loaded successfully''), (''path'', PyStr p)],
         svc\<lparr>media_player :=
               Some \<lparr>video_path = p, cap = Some 0, is_playing = False, is_paused = False,
                     current_frame = 0, total_frames = py_int n,
                     fps = (if f \<le> 0 then 30 else f), speed = 1, play_thread = None\<rparr>\<rparr>)) \<and>
   (VideoCapture env p = None \<longrightarrow>
      load_video env p svc =
        (Inl (HTTPException 400 (''Could not open video file: '' @ p)), svc))"
  by (simp add: load_video_def load_video_try_def MediaPlayer_init_opened MediaPlayer_init_failed)

theorem load_video_existing_file_witness:
  "path_exists demo_env ''clip.mp4'' \<and> VideoCapture demo_env ''clip.mp4'' = Some (250, 25) \<and>
   load_video demo_env ''clip.mp4'' VideoService_init =
     (Inr [(''message'', PyStr ''Video loaded successfully''), (''path'', PyStr ''clip.mp4'')],
      \<lparr>media_player =
          Some \<lparr>video_path = ''clip.mp4'', cap = Some 0, is_playing = False,
                is_paused = False, current_frame = 0, total_frames = 250, fps = 25,
                speed = 1, play_thread = None\<rparr>\<rparr>) \<and>
   path_exists demo_env ''notes.txt'' \<and> VideoCapture demo_env ''notes.txt'' = None \<and>
   load_video demo_env ''notes.txt'' VideoService_init =
     (Inl (HTTPException 400 ''Could not open video file: notes.txt''), VideoService_init)"
  using load_video_existing_file [OF demo_clip(1), of VideoService_init]
    load_video_existing_file [OF demo_notes(1), of VideoService_init]
  by (simp add: demo_clip demo_notes VideoService_init_def py_int_def)

section \<open>Setting the speed\<close>

text \<open>
  Claim C2: with a player loaded, \<open>set_speed\<close> at a speed outside the allowed list
  raises an HTTP error with status 400, and the service is returned as it was: the
  stored speed and every other field of the player are unchanged.
\<close>

theorem set_speed_invalid_keeps_state:
  "media_player svc = Some mp \<Longrightarrow> s \<notin> set VALID_SPEEDS \<Longrightarrow>
   set_speed env s svc =
     (Inl (HTTPException 400 ''Invalid speed. Must be one of: [0.5, 1.0, 2.0, 4.0]''), svc)"
  by (simp add: set_speed_def MediaPlayer_set_speed_invalid)

theorem set_speed_invalid_keeps_state_witness:
  "media_player demo_service = Some demo_player \<and> (3::real) \<notin> set VALID_SPEEDS \<and>
   set_speed demo_env 3 demo_service =
     (Inl (HTTPException 400 ''Invalid speed. Must be one of: [0.5, 1.0, 2.0, 4.0]''),
      demo_service) \<and>
   speed demo_player = 2"
  using set_speed_invalid_keeps_state [OF demo_loaded three_invalid, of demo_env]
  by (simp add: demo_loaded three_invalid demo_player_def)

text \<open>
  Claim C3: \<open>set_speed\<close> succeeds exactly for the speeds 0.5, 1.0, 2.0 and 4.0. This
  holds of the player's method as it stands, and of the service's method once a player
  is loaded: on success the player's speed becomes \<open>s\<close> and the response holds a message
  and the speed \<open>s\<close>; for any other \<open>s\<close> the call fails with status 400.
\<close>

theorem set_speed_succeeds_iff_valid:
  "((\<exists>mp'. MediaPlayer_set_speed s mp = (Inr (), mp')) \<longleftrightarrow> s \<in> {0.5, 1, 2, 4}) \<and>
   (media_player svc = Some mp \<longrightarrow>
      ((\<exists>r svc'. set_speed env s svc = (Inr r, svc')) \<longleftrightarrow> s \<in> {0.5, 1, 2, 4}) \<and>
      set_speed env s svc =
        (if s \<in> {0.5, 1, 2, 4}
         then (Inr [(''message'', PyStr (''Speed set to '' @ str_float env s @ ''x'')),
                    (''speed'', PyFloat s)],
               svc\<lparr>media_player := Some (mp\<lparr>speed := s\<rparr>)\<rparr>)
         else (Inl (HTTPException 400 ''Invalid speed. Must be one of: [0.5, 1.0, 2.0, 4.0]''),
               svc)))"
  by (auto simp add: set_speed_def MediaPlayer_set_speed_def VALID_SPEEDS_def)

theorem set_speed_succeeds_iff_valid_witness:
  "media_player demo_service = Some demo_player \<and>
   set_speed demo_env 4 demo_service =
     (Inr [(''message'', PyStr ''Speed set to 4.0x''), (''speed'', PyFloat 4)],
      \<lparr>media_player = Some (demo_player\<lparr>speed := 4\<rparr>)\<rparr>) \<and>
   set_speed demo_env 3 demo_service =
     (Inl (HTTPException 400 ''Invalid speed. Must be one of: [0.5, 1.0, 2.0, 4.0]''),
      demo_service)"
  using set_speed_succeeds_iff_valid [of 4 demo_player demo_service demo_env]
    set_speed_succeeds_iff_valid [of 3 demo_player demo_service demo_env]
  by (simp add: demo_loaded demo_env_def demo_service_def decimal_4)

section \<open>Control before any load\<close>

text \<open>
  Claim C4: while no video is loaded, each of \<open>play_video\<close>, \<open>pause_video\<close>,
  \<open>stop_video\<close>, \<open>reset_video\<close> and \<open>set_speed\<close> raises an HTTP error with status 400
  and detail "No video loaded", and leaves the service as it was.
\<close>

theorem control_without_video:
  "media_player svc = None \<Longrightarrow>
   play_video env spd svc = (Inl (HTTPException 400 ''No video loaded''), svc) \<and>
   pause_video svc = (Inl (HTTPException 400 ''No video loaded''), svc) \<and>
   stop_video env svc = (Inl (HTTPException 400 ''No video loaded''), svc) \<and>
   reset_video env svc = (Inl (HTTPException 400 ''No video loaded''), svc) \<and>
   set_speed env s svc = (Inl (HTTPException 400 ''No video loaded''), svc)"
  by (simp add: play_video_def pause_video_def stop_video_def reset_video_def set_speed_def)

theorem control_without_video_witness:
  "media_player VideoService_init = None \<and>
   play_video demo_env (Some 2) VideoService_init =
     (Inl (HTTPException 400 ''No video loaded''), VideoService_init) \<and>
   pause_video VideoService_init =
     (Inl (HTTPException 400 ''No video loaded''), VideoService_init) \<and>
   stop_video demo_env VideoService_init =
     (Inl (HTTPException 400 ''No video loaded''), VideoService_init) \<and>
   reset_video demo_env VideoService_init =
     (Inl (HTTPException 400 ''No video loaded''), VideoService_init) \<and>
   set_speed demo_env 2 VideoService_init =
     (Inl (HTTPException 400 ''No video loaded''), VideoService_init)"
  using control_without_video [of VideoService_init demo_env "Some 2" 2]
  by (simp add: VideoService_init_def)

section \<open>The status\<close>

text \<open>
  Claim C5: \<open>get_status\<close> raises nothing; while no video is loaded it returns exactly
  the dictionary with \<open>loaded\<close> false, and with a player loaded it returns the eight
  status fields of the player together with \<open>loaded\<close> true.
\<close>

theorem get_status_reports_loaded:
  "fst (router env GET_status svc) = Inr (get_status env svc) \<and>
   (media_player svc = None \<longrightarrow> get_status env svc = [(''loaded'', PyBool False)]) \<and>
   (\<forall>mp. media_player svc = Some mp \<longrightarrow>
      get_status env svc =
        [(''is_playing'', PyBool (is_playing mp)),
         (''is_paused'', PyBool (is_paused mp)),
         (''current_frame'', PyInt (current_frame mp)),
         (''total_frames'', PyInt (total_frames mp)),
         (''speed'', PyFloat (speed mp)),
         (''timestamp'', PyStr (MediaPlayer_get_timestamp env mp)),
         (''video_path'', PyStr (video_path mp)),
         (''fps'', PyFloat (fps mp)),
         (''loaded'', PyBool True)])"
  by (simp add: get_status_def MediaPlayer_get_status_def)

theorem get_status_reports_loaded_witness:
  "media_player VideoService_init = None \<and>
   get_status demo_env VideoService_init = [(''loaded'', PyBool False)] \<and>
   media_player demo_service = Some demo_player \<and>
   get_status demo_env demo_service =
     [(''is_playing'', PyBool True), (''is_paused'', PyBool True),
      (''current_frame'', PyInt 42), (''total_frames'', PyInt 250),
      (''speed'', PyFloat 2),
      (''timestamp'', PyStr ''00:01:679''),
      (''video_path'', PyStr ''clip.mp4''), (''fps'', PyFloat 25),
      (''loaded'', PyBool True)]"
  using get_status_reports_loaded [of demo_env VideoService_init]
    get_status_reports_loaded [of demo_env demo_service]
      demo_timestamp
  by (simp add: VideoService_init_def demo_service_def) (simp add: demo_player_def)

section \<open>Failures\<close>

text \<open>
  Claim C7: whatever the request and the state, a failure of the service is an
  \<open>HTTPException\<close> whose status code is 400 or 404, and no other failure is seen.

  \<open>load_video\<close> and \<open>play_video\<close> turn every exception into status 400, and
  \<open>set_speed\<close> the only one that can reach it (\<open>router_failures\<close> above). \<open>stop_video\<close>
  and \<open>reset_video\<close> have no handler around the player's \<open>stop\<close> and \<open>reset\<close>: with a
  player loaded, when \<open>cv2.destroyAllWindows()\<close> raises, as it does on an OpenCV build
  without window support, the \<open>cv2.error\<close> leaves the service as it is, and is no
  \<open>HTTPException\<close>.
\<close>

theorem stop_video_library_error:
  "media_player svc = Some mp \<Longrightarrow> play_thread mp \<noteq> Some NotStarted \<Longrightarrow>
   destroyAllWindows env = Some m \<Longrightarrow>
   stop_video env svc =
     (Inl (cv2_error m), svc\<lparr>media_player := Some (snd (stop env mp))\<rparr>) \<and>
   reset_video env svc =
     (Inl (cv2_error m), svc\<lparr>media_player := Some (snd (reset env mp))\<rparr>) \<and>
   \<not> is_HTTPException (cv2_error m)"
  by (simp add: stop_video_loaded reset_video_loaded stop_window_error reset_window_error)

theorem stop_video_library_error_witness:
  "load_video headless_env ''clip.mp4'' VideoService_init =
     (Inr [(''message'', PyStr ''Video loaded successfully''), (''path'', PyStr ''clip.mp4'')],
      fresh_service) \<and>
   router headless_env POST_stop fresh_service =
     (Inl (cv2_error ''The function is not implemented''), fresh_service) \<and>
   \<not> is_HTTPException (cv2_error ''The function is not implemented'')"
proof -
  have "load_video headless_env ''clip.mp4'' VideoService_init =
     (Inr [(''message'', PyStr ''Video loaded successfully''), (''path'', PyStr ''clip.mp4'')],
      fresh_service)"
    by (simp add: load_video_def load_video_try_def headless_library demo_clip
        MediaPlayer_init_opened [of headless_env "''clip.mp4''" 250 25] py_int_def
        fresh_service_def fresh_player_def VideoService_init_def)
  then show ?thesis
    using stop_video_library_error [OF fresh_loaded fresh_thread headless_library(1)]
    by (simp add: fresh_stop fresh_service_def)
qed

section \<open>The playback flags\<close>

text \<open>
  Claim C8: \<open>is_paused\<close> implies \<open>is_playing\<close> in every state of the player.

  The constructor gives it and \<open>play\<close>, \<open>pause\<close>, \<open>stop\<close> and \<open>reset\<close> keep it
  (\<open>init_invariant\<close>, \<open>play_invariant\<close>, \<open>pause_invariant\<close>, \<open>stop_invariant\<close>,
  \<open>reset_invariant\<close> above). The playback thread does not: when \<open>pause\<close> arrives while
  the thread is inside the loop body, and the thread then finds no further frame or
  sees \<open>q\<close> or ESC, it writes \<open>is_playing = False\<close> and leaves \<open>is_paused\<close> set.
\<close>

theorem playback_thread_breaks_invariant:
  "is_playing mp \<Longrightarrow> play_thread mp = Some InLoopBody \<Longrightarrow> ev = NoFrame \<or> ev = Frame True \<Longrightarrow>
   control_invariant (pause mp) \<and> is_paused (pause mp) \<and>
   is_paused (MediaPlayer_play_video ev (pause mp)) \<and>
   \<not> is_playing (MediaPlayer_play_video ev (pause mp)) \<and>
   \<not> control_invariant (MediaPlayer_play_video ev (pause mp))"
  by (auto simp add: pause_def MediaPlayer_play_video_def leave_loop_def control_invariant_def
      Let_def)

theorem playback_thread_breaks_invariant_witness:
  "MediaPlayer_init demo_env ''clip.mp4'' = Inr fresh_player \<and>
   control_invariant fresh_player \<and>
   control_invariant (snd (play demo_env None fresh_player)) \<and>
   control_invariant (MediaPlayer_play_video NoFrame (snd (play demo_env None fresh_player))) \<and>
   control_invariant
     (pause (MediaPlayer_play_video NoFrame (snd (play demo_env None fresh_player)))) \<and>
   \<not> control_invariant
     (MediaPlayer_play_video NoFrame
        (pause (MediaPlayer_play_video NoFrame (snd (play demo_env None fresh_player)))))"
  using playback_thread_breaks_invariant
      [of "fresh_player\<lparr>is_playing := True, play_thread := Some InLoopBody\<rparr>" NoFrame]
    demo_init init_invariant [OF demo_init] play_invariant [OF init_invariant [OF demo_init]]
  by (simp add: demo_race) (simp add: control_invariant_def fresh_player_def)

text \<open>
  Claim C9: with a player loaded, \<open>play_video\<close> at a speed outside the allowed list
  fails with status 400 and returns the service as it was; in particular \<open>is_playing\<close>,
  \<open>is_paused\<close> and \<open>speed\<close> keep their values, the speed being checked before any flag
  is written.
\<close>

theorem play_video_invalid_speed:
  "media_player svc = Some mp \<Longrightarrow> s \<notin> set VALID_SPEEDS \<Longrightarrow>
   play_video env (Some s) svc =
     (Inl (HTTPException 400 ''Invalid speed. Must be one of: [0.5, 1.0, 2.0, 4.0]''), svc) \<and>
   (\<exists>mp'. media_player (snd (play_video env (Some s) svc)) = Some mp' \<and>
      is_playing mp' = is_playing mp \<and> is_paused mp' = is_paused mp \<and> speed mp' = speed mp)"
  by (simp add: play_video_def play_def MediaPlayer_set_speed_invalid)

theorem play_video_invalid_speed_witness:
  "media_player demo_service = Some demo_player \<and> (3::real) \<notin> set VALID_SPEEDS \<and>
   play_video demo_env (Some 3) demo_service =
     (Inl (HTTPException 400 ''Invalid speed. Must be one of: [0.5, 1.0, 2.0, 4.0]''),
      demo_service)"
  using play_video_invalid_speed [OF demo_loaded three_invalid, of demo_env]
  by (simp add: demo_loaded three_invalid)

section \<open>Reset\<close>

text \<open>
  Claim C10: with a player loaded, whenever \<open>reset_video\<close> succeeds it leaves a player
  at frame 0 that is neither playing nor paused, with the path, the frame count, the
  frame rate and the speed it had, and the status read next reports frame 0 and the
  timestamp "00:00:000"; this holds whatever the joined playback thread still met.
  \<open>reset_video\<close> does succeed when the thread, if there is one, was started and
  \<open>cv2.destroyAllWindows\<close> and \<open>cap.set\<close> return.
\<close>

theorem reset_video_rewinds:
  assumes loaded: "media_player svc = Some mp"
  shows "(play_thread mp \<noteq> Some NotStarted \<and> destroyAllWindows env = None \<and>
          cap_set env = None \<longrightarrow>
            (\<exists>r svc'. reset_video env svc = (Inr r, svc'))) \<and>
         (\<forall>r svc'. reset_video env svc = (Inr r, svc') \<longrightarrow>
            (\<exists>mp'. r = [(''message'', PyStr ''Video reset to beginning'')] \<and>
               svc' = svc\<lparr>media_player := Some mp'\<rparr> \<and>
               current_frame mp' = 0 \<and> \<not> is_playing mp' \<and> \<not> is_paused mp' \<and>
               video_path mp' = video_path mp \<and> total_frames mp' = total_frames mp \<and>
               fps mp' = fps mp \<and> speed mp' = speed mp \<and>
               map_of (get_status env svc') ''current_frame'' = Some (PyInt 0) \<and>
               map_of (get_status env svc') ''timestamp'' = Some (PyStr ''00:00:000'')))"
proof (intro conjI impI allI)
  assume "play_thread mp \<noteq> Some NotStarted \<and> destroyAllWindows env = None \<and> cap_set env = None"
  then have "fst (reset env mp) = Inr ()"
    by (simp add: reset_returns_if)
  then show "\<exists>r svc'. reset_video env svc = (Inr r, svc')"
    by (simp add: reset_video_loaded [OF loaded])
next
  fix r svc'
  assume returned: "reset_video env svc = (Inr r, svc')"
  let ?mp = "snd (reset env mp)"
  from returned obtain u where u: "fst (reset env mp) = Inr u"
    by (cases "fst (reset env mp)") (simp_all add: reset_video_loaded [OF loaded])
  then have "reset env mp = (Inr u, ?mp)"
    by (cases "reset env mp") simp
  then have frame: "current_frame ?mp = 0"
    by (rule reset_returns)
  have r: "r = [(''message'', PyStr ''Video reset to beginning'')]"
    and svc': "svc' = svc\<lparr>media_player := Some ?mp\<rparr>"
    using returned u by (simp_all add: reset_video_loaded [OF loaded])
  have status: "get_status env svc' = MediaPlayer_get_status env ?mp @ [(''loaded'', PyBool True)]"
    by (simp add: svc' get_status_def MediaPlayer_get_status_def)
  have f: "map_of (get_status env svc') ''current_frame'' = Some (PyInt 0)"
    by (simp add: status MediaPlayer_get_status_def frame)
  have t: "map_of (get_status env svc') ''timestamp'' = Some (PyStr ''00:00:000'')"
    by (simp add: status MediaPlayer_get_status_def timestamp_at_frame_0 [OF frame])
  show "\<exists>mp'. r = [(''message'', PyStr ''Video reset to beginning'')] \<and>
               svc' = svc\<lparr>media_player := Some mp'\<rparr> \<and>
               current_frame mp' = 0 \<and> \<not> is_playing mp' \<and> \<not> is_paused mp' \<and>
               video_path mp' = video_path mp \<and> total_frames mp' = total_frames mp \<and>
               fps mp' = fps mp \<and> speed mp' = speed mp \<and>
               map_of (get_status env svc') ''current_frame'' = Some (PyInt 0) \<and>
               map_of (get_status env svc') ''timestamp'' = Some (PyStr ''00:00:000'')"
    using r svc' frame f t reset_flags [of env mp] reset_keeps [of env mp] by blast
qed

theorem reset_video_rewinds_witness:
  "media_player demo_service = Some demo_player \<and>
   reset_video demo_env demo_service =
     (Inr [(''message'', PyStr ''Video reset to beginning'')],
      \<lparr>media_player =
          Some \<lparr>video_path = ''clip.mp4'', cap = Some 0, is_playing = False,
                is_paused = False, current_frame = 0, total_frames = 250, fps = 25,
                speed = 2, play_thread = Some Finished\<rparr>\<rparr>) \<and>
   map_of (get_status demo_env (snd (reset_video demo_env demo_service))) ''timestamp'' =
     Some (PyStr ''00:00:000'')"
  using reset_video_rewinds [OF demo_loaded, of demo_env] demo_loaded demo_reset
  by auto

end
